theory Spec2Isabelle
  imports Complex_Main "HOL-Library.Sublist"
begin

section \<open>Strings as the monitor handles them\<close>

text \<open>
  Command lines are Python \<open>str\<close> values. They are modelled as \<open>string\<close>; the
  character classes below are the ASCII part of Python's: \<open>str.isspace\<close> is true of
  the code points 9 to 13, 28 to 31 and 32, and \<open>str.lower\<close> maps \<open>A\<close>..\<open>Z\<close> to
  \<open>a\<close>..\<open>z\<close>. Cased characters outside ASCII are outside this model.
\<close>

definition isspace :: "char \<Rightarrow> bool" where
  "isspace c = (of_char c \<in> {9, 10, 11, 12, 13, 28, 29, 30, 31, 32 :: nat})"

definition isupper :: "char \<Rightarrow> bool" where
  "isupper c = (65 \<le> (of_char c :: nat) \<and> (of_char c :: nat) \<le> 90)"



definition strip :: "string \<Rightarrow> string" where
  "strip s = rev (dropWhile isspace (rev (dropWhile isspace s)))"

text \<open>\<open>str.split()\<close> with no argument: maximal runs of non-space characters.\<close>

fun split_acc :: "string \<Rightarrow> string \<Rightarrow> string list" where
  "split_acc cur [] = (if cur = [] then [] else [cur])"
| "split_acc cur (c # cs) =
     (if isspace c then (if cur = [] then split_acc [] cs else cur # split_acc [] cs)
      else split_acc (cur @ [c]) cs)"

definition split :: "string \<Rightarrow> string list" where
  "split s = split_acc [] s"

text \<open>
  \<open>int(token)\<close> on a token that holds no white space: an optional sign, then ASCII
  decimal digits, where single underscores may stand between digits. \<open>None\<close> is Python's
  \<open>ValueError\<close>.
\<close>

definition isdigit :: "char \<Rightarrow> bool" where
  "isdigit c = (48 \<le> (of_char c :: nat) \<and> (of_char c :: nat) \<le> 57)"

fun parse_digits :: "string \<Rightarrow> bool \<Rightarrow> nat \<Rightarrow> nat option" where
  "parse_digits [] prev acc = (if prev then Some acc else None)"
| "parse_digits (c # cs) prev acc =
     (if isdigit c then parse_digits cs True (acc * 10 + (of_char c - 48))
      else if c = CHR ''_'' \<and> prev then parse_digits cs False acc
      else None)"

definition py_int :: "string \<Rightarrow> int option" where
  "py_int s =
     (case s of
        [] \<Rightarrow> None
      | c # cs \<Rightarrow>
          if c = CHR ''+'' then map_option int (parse_digits cs False 0)
          else if c = CHR ''-'' then map_option (\<lambda>n. - int n) (parse_digits cs False 0)
          else map_option int (parse_digits s False 0))"

section \<open>The console input thread\<close>




section \<open>The database\<close>

text \<open>
  The two tables of \<open>DBAccess._init_db\<close>. \<open>servers_seq\<close> and \<open>stats_seq\<close> are the
  AUTOINCREMENT counters SQLite keeps in \<open>sqlite_sequence\<close>: a new row gets the
  counter plus one, so an id is never used twice. \<open>server_id\<close> is \<open>None\<close> for SQL
  NULL. Timestamps are seconds on the database clock; the text form
  \<open>YYYY-MM-DD HH:MM:SS\<close> that SQLite stores compares in the same order.

  \<open>foreign_keys\<close> is the connection's \<open>PRAGMA foreign_keys\<close>. The clause
  \<open>ON DELETE CASCADE\<close> of table \<open>stats\<close> acts only while it is on. SQLite opens
  every connection with it off, and the program never issues the pragma, so
  \<open>connect\<close> yields it off.
\<close>

record server =
  sid :: nat
  name :: string
  ip :: string

record stat =
  stat_id :: nat
  server_id :: "nat option"
  online :: int
  timestamp :: int

record store =
  servers :: "server list"
  stats :: "stat list"
  servers_seq :: nat
  stats_seq :: nat
  foreign_keys :: bool

definition init_db :: store where
  "init_db = \<lparr>servers = [], stats = [], servers_seq = 0, stats_seq = 0, foreign_keys = False\<rparr>"

definition connect :: "store \<Rightarrow> store" where
  "connect db_file = db_file\<lparr>foreign_keys := False\<rparr>"

datatype db_error = IntegrityError

text \<open>\<open>SELECT name, ip FROM servers\<close>, in table order.\<close>

definition load_servers :: "store \<Rightarrow> (string \<times> string) list" where
  "load_servers s = map (\<lambda>r. (name r, ip r)) (servers s)"

text \<open>\<open>SELECT id FROM servers WHERE name = ?\<close> and \<open>fetchone\<close>.\<close>

definition get_server_id :: "store \<Rightarrow> string \<Rightarrow> nat option" where
  "get_server_id s n =
     (case filter (\<lambda>r. name r = n) (servers s) of [] \<Rightarrow> None | r # _ \<Rightarrow> Some (sid r))"

text \<open>\<open>INSERT INTO servers (name, ip)\<close>: both columns are UNIQUE.\<close>

definition insert_server :: "store \<Rightarrow> string \<Rightarrow> string \<Rightarrow> db_error + store" where
  "insert_server s n a =
     (if \<exists>r \<in> set (servers s). name r = n \<or> ip r = a then Inl IntegrityError
      else Inr (s\<lparr>servers := servers s @ [\<lparr>sid = Suc (servers_seq s), name = n, ip = a\<rparr>],
                  servers_seq := Suc (servers_seq s)\<rparr>))"

text \<open>\<open>INSERT INTO stats (server_id, online)\<close>; the timestamp defaults to the clock.\<close>

definition insert_stat :: "store \<Rightarrow> nat option \<Rightarrow> int \<Rightarrow> int \<Rightarrow> store" where
  "insert_stat s i n t =
     s\<lparr>stats := stats s @ [\<lparr>stat_id = Suc (stats_seq s), server_id = i, online = n,
                            timestamp = t\<rparr>],
       stats_seq := Suc (stats_seq s)\<rparr>"

text \<open>\<open>DELETE FROM servers WHERE name = ?\<close>, with the row count.\<close>

definition delete_servers_named :: "store \<Rightarrow> string \<Rightarrow> store \<times> nat" where
  "delete_servers_named s n =
     (let gone = filter (\<lambda>r. name r = n) (servers s)
      in (s\<lparr>servers := filter (\<lambda>r. name r \<noteq> n) (servers s),
            stats := (if foreign_keys s
                      then filter (\<lambda>t. \<not> (\<exists>r \<in> set gone. server_id t = Some (sid r))) (stats s)
                      else stats s)\<rparr>,
          length gone))"

text \<open>\<open>DELETE FROM stats WHERE server_id = ?\<close>, with the row count.\<close>

definition delete_stats_of :: "store \<Rightarrow> nat \<Rightarrow> store \<times> nat" where
  "delete_stats_of s i =
     (s\<lparr>stats := filter (\<lambda>t. server_id t \<noteq> Some i) (stats s)\<rparr>,
      length (filter (\<lambda>t. server_id t = Some i) (stats s)))"

text \<open>
  \<open>datetime('now', '-N days')\<close>: the modifier is built as \<open>f'-{days} days'\<close>, so a
  negative \<open>days\<close> gives \<open>'--N days'\<close>, which SQLite rejects; the result is NULL and
  no timestamp compares greater than it. The model does not bound the dates SQLite can
  represent.
\<close>

definition window_start :: "int \<Rightarrow> int \<Rightarrow> int option" where
  "window_start now days = (if days < 0 then None else Some (now - days * 86400))"

definition after :: "int option \<Rightarrow> int \<Rightarrow> bool" where
  "after cutoff t = (case cutoff of None \<Rightarrow> False | Some c \<Rightarrow> c < t)"

text \<open>\<open>FROM stats JOIN servers ON servers.id = stats.server_id WHERE servers.name = ?\<close>.\<close>

definition joined :: "store \<Rightarrow> string \<Rightarrow> stat list" where
  "joined s n =
     concat (map (\<lambda>t. map (\<lambda>r. t)
                     (filter (\<lambda>r. server_id t = Some (sid r) \<and> name r = n) (servers s)))
                 (stats s))"

text \<open>The samples of \<open>plot_trend\<close>: the joined rows after the cutoff, \<open>ORDER BY timestamp\<close>.\<close>

definition query_samples :: "store \<Rightarrow> string \<Rightarrow> int option \<Rightarrow> (int \<times> int) list" where
  "query_samples s n cutoff =
     map (\<lambda>t. (timestamp t, online t))
       (sort_key timestamp (filter (\<lambda>t. after cutoff (timestamp t)) (joined s n)))"

text \<open>
  The rows of \<open>detect_anomalies\<close>: \<open>ORDER BY timestamp DESC LIMIT 6\<close>. Rows with equal
  timestamps come out latest insertion first.
\<close>

definition recent_counts :: "store \<Rightarrow> string \<Rightarrow> int list" where
  "recent_counts s n = take 6 (map online (rev (sort_key timestamp (joined s n))))"

section \<open>The world outside\<close>

text \<open>
  \<open>status w a\<close> is the outcome of \<open>JavaServer.lookup(a, timeout=2).status()\<close>:
  \<open>Inr n\<close> with \<open>n = status.players.online\<close>, or \<open>Inl msg\<close> with the text of the
  exception raised. \<open>stamp w a\<close> is the database clock when the sample polled from
  address \<open>a\<close> is inserted, \<open>db_now w\<close> the clock the queries read as \<open>'now'\<close>.
\<close>

record world =
  status :: "string \<Rightarrow> string + int"
  stamp :: "string \<Rightarrow> int"
  db_now :: int

section \<open>What the monitor prints\<close>

datatype 'a cell = NA | Num 'a

datatype event =
    Executing string
  | Prompt
  | Help
  | UnknownCommand
  | NoServers
  | QueryStart
  | QueryOk string int
  | QueryTimeout string
  | QueryFailed string string
  | ListHeader
  | ListRow string string
  | UsageAdd
  | UsageRemove
  | UsageDelete
  | UsageTrend
  | DaysNotInteger
  | AddOk string string
  | AddDuplicate
  | AddTimeout
  | AddFailed string
  | RemoveOk string
  | RemoveNotFound
  | DeleteNotExist
  | DeletedCount nat string
  | ReportStart
  | ReportRow string string "int cell" "rat cell" nat
  | UnknownServers "string list"
  | TrendNoData string
  | TrendLine string "(int \<times> int) list"
  | TrendSaved int "string list"
  | PollStart
  | PollOk string int
  | PollFailed string string
  | DetectStart
  | SpikeAlert string int real
  | DropAlert string int real
  | NeverDeleteMode
  | CleanStart
  | CleanedCount nat
  | ConfigShown nat bool

section \<open>Store operations of the monitor\<close>

text \<open>
  Every operation takes the store and returns the new store with the lines it prints.
  The numbers an event carries are the values the code formats; rounding to one decimal
  for display is left to the rendering.
\<close>

definition add_server :: "world \<Rightarrow> store \<Rightarrow> string \<Rightarrow> string \<Rightarrow> store \<times> event list" where
  "add_server w s n a =
     (case status w a of
        Inl msg \<Rightarrow> (s, [if sublist ''timed out'' msg then AddTimeout else AddFailed msg])
      | Inr k \<Rightarrow>
          (case insert_server s n a of
             Inl IntegrityError \<Rightarrow> (s, [AddDuplicate])
           | Inr s' \<Rightarrow> (s', [AddOk n a])))"

definition remove_server :: "store \<Rightarrow> string \<Rightarrow> store \<times> event list" where
  "remove_server s n =
     (let (s', k) = delete_servers_named s n
      in (s', [if k > 0 then RemoveOk n else RemoveNotFound]))"

text \<open>\<open>if not server_id\<close> is true of \<open>None\<close> and of the id 0.\<close>

definition delete_server_data :: "store \<Rightarrow> string \<Rightarrow> store \<times> event list" where
  "delete_server_data s n =
     (case get_server_id s n of
        None \<Rightarrow> (s, [DeleteNotExist])
      | Some i \<Rightarrow>
          if i = 0 then (s, [DeleteNotExist])
          else (let (s', k) = delete_stats_of s i in (s', [DeletedCount k n])))"

fun poll_servers :: "world \<Rightarrow> (string \<times> string) list \<Rightarrow> store \<Rightarrow> store \<times> event list" where
  "poll_servers w [] s = (s, [])"
| "poll_servers w ((n, a) # rest) s =
     (case status w a of
        Inl msg \<Rightarrow> (let (s', ev) = poll_servers w rest s in (s', PollFailed n msg # ev))
      | Inr k \<Rightarrow>
          (let s1 = insert_stat s (get_server_id s n) k (stamp w a);
               (s', ev) = poll_servers w rest s1
           in (s', PollOk n k # ev)))"

definition collect_data :: "world \<Rightarrow> store \<Rightarrow> store \<times> event list" where
  "collect_data w s =
     (let srv = load_servers s
      in if srv = [] then (s, [])
         else (let (s', ev) = poll_servers w srv s in (s', PollStart # ev)))"

subsection \<open>The report\<close>

text \<open>
  \<open>MAX(online)\<close>, \<open>AVG(online)\<close> and the number of distinct calendar days over the
  joined rows after the cutoff. The first two are NULL over no rows.
\<close>

definition aggregate :: "store \<Rightarrow> string \<Rightarrow> int option \<Rightarrow> int option \<times> rat option \<times> nat" where
  "aggregate s n cutoff =
     (let rows = filter (\<lambda>t. after cutoff (timestamp t)) (joined s n);
          xs = map online rows
      in (if xs = [] then None else Some (Max (set xs)),
          if xs = [] then None else Some (of_int (sum_list xs) / of_nat (length xs)),
          length (remdups (map (\<lambda>t. timestamp t div 86400) rows))))"

text \<open>\<open>data[0] or 'N/A'\<close> and \<open>round(data[1], 1) if data[1] else 'N/A'\<close>.\<close>

definition peak_cell :: "int option \<Rightarrow> int cell" where
  "peak_cell p = (case p of None \<Rightarrow> NA | Some v \<Rightarrow> if v = 0 then NA else Num v)"

definition avg_cell :: "rat option \<Rightarrow> rat cell" where
  "avg_cell a = (case a of None \<Rightarrow> NA | Some v \<Rightarrow> if v = 0 then NA else Num v)"

definition report_row :: "world \<Rightarrow> store \<Rightarrow> int \<Rightarrow> string \<times> string \<Rightarrow> event" where
  "report_row w s days srv =
     (case aggregate s (fst srv) (window_start (db_now w) days) of
        (p, a, d) \<Rightarrow> ReportRow (fst srv) (snd srv) (peak_cell p) (avg_cell a) d)"

definition generate_report :: "world \<Rightarrow> store \<Rightarrow> int \<Rightarrow> event list" where
  "generate_report w s days = ReportStart # map (report_row w s days) (load_servers s)"

subsection \<open>Anomaly detection\<close>

text \<open>
  \<open>statistics.mean\<close> and \<open>statistics.stdev\<close> (the square root of the sample
  variance), in exact real arithmetic; the floating-point rounding of the library is
  not modelled. Python raises \<open>StatisticsError\<close> for \<open>mean\<close> of no point and for
  \<open>stdev\<close> of fewer than two; \<open>anomaly\<close> calls them behind its guard only, on two
  points or more.
\<close>

definition mean :: "int list \<Rightarrow> real" where
  "mean xs = real_of_int (sum_list xs) / real (length xs)"

definition variance :: "int list \<Rightarrow> real" where
  "variance xs = (\<Sum>x\<leftarrow>xs. (real_of_int x - mean xs)\<^sup>2) / real (length xs - 1)"

definition stdev :: "int list \<Rightarrow> real" where
  "stdev xs = sqrt (variance xs)"

datatype alert = Spike | Drop

definition anomaly :: "int list \<Rightarrow> alert option" where
  "anomaly data =
     (if length data < 3 then None
      else (let current = real_of_int (hd data);
                avg = mean (tl data);
                std = (if length data > 2 then stdev (tl data) else 0);
                threshold = (if std = 0 then avg * 1.5 else avg + 2 * std)
            in if current > threshold then Some Spike
               else if current < avg - 2 * std then Some Drop
               else None))"

definition detect_server :: "store \<Rightarrow> string \<times> string \<Rightarrow> event list" where
  "detect_server s srv =
     (let data = recent_counts s (fst srv)
      in case anomaly data of
           None \<Rightarrow> []
         | Some Spike \<Rightarrow> [SpikeAlert (fst srv) (hd data) (mean (tl data))]
         | Some Drop \<Rightarrow> [DropAlert (fst srv) (hd data) (mean (tl data))])"

definition detect_anomalies :: "store \<Rightarrow> event list" where
  "detect_anomalies s = DetectStart # concat (map (detect_server s) (load_servers s))"

subsection \<open>Retention and trends\<close>

text \<open>\<open>DELETE FROM stats WHERE timestamp < datetime('now', '-30 days')\<close>.\<close>

definition clean_old_data :: "bool \<Rightarrow> world \<Rightarrow> store \<Rightarrow> store \<times> event list" where
  "clean_old_data never_delete w s =
     (if never_delete then (s, [NeverDeleteMode])
      else (let old = (\<lambda>t. timestamp t < db_now w - 30 * 86400)
            in (s\<lparr>stats := filter (\<lambda>t. \<not> old t) (stats s)\<rparr>,
                [CleanStart, CleanedCount (length (filter old (stats s)))])))"

text \<open>
  \<open>plot_trend\<close> draws one line per name that has samples and then always saves the
  figure; \<open>TrendSaved\<close> is the file written, named from the days and the names.
\<close>

definition trend_line :: "world \<Rightarrow> store \<Rightarrow> int \<Rightarrow> string \<Rightarrow> event" where
  "trend_line w s days n =
     (let data = query_samples s n (window_start (db_now w) days)
      in if data = [] then TrendNoData n else TrendLine n data)"

definition plot_trend :: "world \<Rightarrow> store \<Rightarrow> string list \<Rightarrow> int \<Rightarrow> event list" where
  "plot_trend w s names days = map (trend_line w s days) names @ [TrendSaved days names]"

definition query_server :: "world \<Rightarrow> string \<times> string \<Rightarrow> event" where
  "query_server w srv =
     (case status w (snd srv) of
        Inr k \<Rightarrow> QueryOk (fst srv) k
      | Inl msg \<Rightarrow> if sublist ''timed out'' msg then QueryTimeout (fst srv)
                   else QueryFailed (fst srv) msg)"

definition real_time_query :: "world \<Rightarrow> store \<Rightarrow> event list" where
  "real_time_query w s =
     (let srv = load_servers s
      in if srv = [] then [NoServers] else QueryStart # map (query_server w) srv)"

definition list_servers :: "store \<Rightarrow> event list" where
  "list_servers s =
     (let srv = load_servers s
      in if srv = [] then [NoServers] else ListHeader # map (\<lambda>r. ListRow (fst r) (snd r)) srv)"

section \<open>The command interpreter\<close>

text \<open>
  \<open>CONFIG\<close> holds the interval of 300 seconds and the retention flag the constructor
  sets from \<open>--never-delete\<close>.
\<close>

definition interval :: nat where
  "interval = 300"

record monitor =
  db :: store
  running :: bool
  never_delete_data :: bool

definition startup :: "store \<Rightarrow> bool \<Rightarrow> monitor" where
  "startup db_file never_delete =
     \<lparr>db = connect db_file, running = True, never_delete_data = never_delete\<rparr>"

definition handle_add :: "world \<Rightarrow> string \<Rightarrow> store \<Rightarrow> store \<times> event list" where
  "handle_add w cmd s =
     (let parts = split cmd
      in if length parts \<noteq> 3 then (s, [UsageAdd])
         else add_server w s (parts ! 1) (parts ! 2))"

definition handle_remove :: "string \<Rightarrow> store \<Rightarrow> store \<times> event list" where
  "handle_remove cmd s =
     (let parts = split cmd
      in if length parts \<noteq> 2 then (s, [UsageRemove])
         else remove_server s (parts ! 1))"

definition handle_delete :: "string \<Rightarrow> store \<Rightarrow> store \<times> event list" where
  "handle_delete cmd s =
     (let parts = split cmd
      in if length parts \<noteq> 2 then (s, [UsageDelete])
         else delete_server_data s (parts ! 1))"

definition handle_report :: "world \<Rightarrow> string \<Rightarrow> store \<Rightarrow> event list" where
  "handle_report w cmd s =
     (let parts = split cmd
      in if length parts > 1
         then (case py_int (parts ! 1) of
                 None \<Rightarrow> [DaysNotInteger]
               | Some days \<Rightarrow> generate_report w s days)
         else generate_report w s 1)"

definition handle_trend :: "world \<Rightarrow> string \<Rightarrow> store \<Rightarrow> event list" where
  "handle_trend w cmd s =
     (let parts = split cmd
      in if length parts < 3 then [UsageTrend]
         else (case py_int (parts ! 1) of
                 None \<Rightarrow> [DaysNotInteger]
               | Some days \<Rightarrow>
                   (let given = drop 2 parts;
                        valid_servers = map fst (load_servers s);
                        invalid = filter (\<lambda>n. n \<notin> set valid_servers) given
                    in if invalid \<noteq> [] then [UnknownServers invalid]
                       else plot_trend w s given days)))"

definition with_db :: "monitor \<Rightarrow> store \<times> event list \<Rightarrow> monitor \<times> event list" where
  "with_db m r = (m\<lparr>db := fst r\<rparr>, snd r)"

definition execute_command :: "world \<Rightarrow> string \<Rightarrow> monitor \<Rightarrow> monitor \<times> event list" where
  "execute_command w cmd m =
     (if cmd = ''exit'' then (m\<lparr>running := False\<rparr>, [])
      else if cmd = ''help'' then (m, [Help])
      else if cmd = ''now'' then (m, real_time_query w (db m))
      else if cmd = ''list'' then (m, list_servers (db m))
      else if prefix ''add'' cmd then with_db m (handle_add w cmd (db m))
      else if prefix ''remove'' cmd then with_db m (handle_remove cmd (db m))
      else if prefix ''delete'' cmd then with_db m (handle_delete cmd (db m))
      else if prefix ''report'' cmd then (m, handle_report w cmd (db m))
      else if prefix ''trend'' cmd then (m, handle_trend w cmd (db m))
      else if cmd = ''config'' then (m, [ConfigShown interval (never_delete_data m)])
      else (m, [UnknownCommand]))"

text \<open>
  \<open>_process_input\<close> takes commands off the queue until it is empty. The list is what
  \<open>get_cmd\<close> hands out during one call, in order; the queue never holds an empty
  command. Each command is announced, run, and followed by the prompt.
\<close>

fun process_input :: "world \<Rightarrow> string list \<Rightarrow> monitor \<Rightarrow> monitor \<times> event list" where
  "process_input w [] m = (m, [])"
| "process_input w (cmd # rest) m =
     (let (m1, ev) = execute_command w cmd m;
          (m2, ev') = process_input w rest m1
      in (m2, Executing cmd # ev @ Prompt # ev'))"

section \<open>The scheduler loop\<close>

text \<open>
  \<open>datetime.now()\<close> as the date's ordinal and the time of day; \<open>(a - b).days\<close> is the
  difference in whole days, rounded down.
\<close>

record datetime =
  ordinal :: int
  hour :: nat
  minute :: nat
  second :: nat
  microsecond :: nat

definition micros :: "datetime \<Rightarrow> int" where
  "micros d =
     (((ordinal d * 24 + int (hour d)) * 60 + int (minute d)) * 60 + int (second d)) * 1000000
       + int (microsecond d)"

definition delta_days :: "datetime \<Rightarrow> datetime \<Rightarrow> int" where
  "delta_days a b = (micros a - micros b) div 86400000000"

record schedule =
  last_collect :: rat
  last_report :: datetime
  last_clean :: datetime

text \<open>
  What one pass of the loop body reads from outside: the commands waiting, the world,
  \<open>time.time()\<close> at the interval test and again after the poll, and \<open>datetime.now()\<close>.
\<close>

record tick_input =
  pending :: "string list"
  env :: world
  t_check :: rat
  t_done :: rat
  now :: datetime

datatype action = Collect | Report | Clean | Detect

text \<open>
  The state of \<open>run\<close>. \<open>printed\<close> collects the output; \<open>fired\<close> records, for each
  pass executed, its \<open>now\<close> and the scheduled actions it called, in order.
\<close>

record loop =
  mon :: monitor
  sched :: schedule
  printed :: "event list"
  fired :: "(datetime \<times> action list) list"

definition tick :: "tick_input \<Rightarrow> loop \<Rightarrow> loop" where
  "tick i st =
     (let (m1, ev1) = process_input (env i) (pending i) (mon st);
          sc = sched st;
          due_collect = (t_check i - last_collect sc \<ge> of_nat interval);
          (s2, ev2) = (if due_collect then collect_data (env i) (db m1) else (db m1, []));
          due_report = (hour (now i) = 8 \<and> minute (now i) < 5);
          ev3 = (if due_report then generate_report (env i) s2 1 else []);
          due_clean = (delta_days (now i) (last_clean sc) \<ge> 7);
          (s4, ev4) = (if due_clean then clean_old_data (never_delete_data m1) (env i) s2
                       else (s2, []));
          due_detect = (minute (now i) = 0);
          ev5 = (if due_detect then detect_anomalies s4 else [])
      in \<lparr>mon = m1\<lparr>db := s4\<rparr>,
          sched = \<lparr>last_collect = (if due_collect then t_done i else last_collect sc),
                   last_report = (if due_report then now i else last_report sc),
                   last_clean = (if due_clean then now i else last_clean sc)\<rparr>,
          printed = printed st @ ev1 @ ev2 @ ev3 @ ev4 @ ev5,
          fired = fired st @
            [(now i, (if due_collect then [Collect] else []) @ (if due_report then [Report] else [])
                     @ (if due_clean then [Clean] else []) @ (if due_detect then [Detect] else []))]\<rparr>)"

text \<open>
  \<open>while self.running\<close>, over the passes for which inputs are given: a finite prefix
  of the execution. The banner and the closing line are not modelled.
\<close>

fun run :: "tick_input list \<Rightarrow> loop \<Rightarrow> loop" where
  "run [] st = st"
| "run (i # rest) st = (if running (mon st) then run rest (tick i st) else st)"

section \<open>Example stores, worlds and passes\<close>

text \<open>
  \<open>world_up\<close> answers every status call with nobody online, \<open>world_down\<close> lets every
  call time out. \<open>store_one\<close> is a fresh database after \<open>add a h\<close>, \<open>store_polled\<close>
  the same after one poll round.
\<close>

definition world_up :: world where
  "world_up = \<lparr>status = (\<lambda>a. Inr 0), stamp = (\<lambda>a. 1000), db_now = 2000\<rparr>"

definition world_down :: world where
  "world_down = \<lparr>status = (\<lambda>a. Inl ''timed out''), stamp = (\<lambda>a. 1000), db_now = 2000\<rparr>"

definition store_one :: store where
  "store_one = fst (add_server world_up (db (startup init_db False)) ''a'' ''h'')"

definition store_polled :: store where
  "store_polled = fst (collect_data world_up store_one)"




text \<open>
  A monitor started at 07:59:59 on a fresh database, and passes of its loop on the same
  day at one minute past eight, \<open>k\<close> microseconds into the minute.
\<close>

definition start :: datetime where
  "start = \<lparr>ordinal = 739000, hour = 7, minute = 59, second = 59, microsecond = 0\<rparr>"

definition loop0 :: loop where
  "loop0 = \<lparr>mon = startup init_db False,
            sched = \<lparr>last_collect = 0, last_report = start, last_clean = start\<rparr>,
            printed = [], fired = []\<rparr>"

definition pass :: "nat \<Rightarrow> tick_input" where
  "pass k = \<lparr>pending = [], env = world_up, t_check = 1, t_done = 1,
             now = \<lparr>ordinal = 739000, hour = 8, minute = 1, second = 0, microsecond = k\<rparr>\<rparr>"





section \<open>Notions used in the statements\<close>

text \<open>
  \<open>has_upper\<close>: the string holds an upper-case letter. \<open>argument_names\<close>: the server
  names and addresses an output line repeats from the command that caused it.
  \<open>touches_only T\<close>: a step from one store to another, with its output, creates only
  servers whose name and address are in \<open>T\<close>, removes only servers whose name is in
  \<open>T\<close>, keeps the samples of every other server, and names only members of \<open>T\<close>.
\<close>

definition has_upper :: "string \<Rightarrow> bool" where
  "has_upper s = list_ex isupper s"



text \<open>
  \<open>schema_ok\<close>: the constraints the schema puts on the server table. Ids, names and
  addresses are distinct, and no id is above the AUTOINCREMENT counter.
\<close>

definition schema_ok :: "store \<Rightarrow> bool" where
  "schema_ok s =
     (distinct (map sid (servers s)) \<and> distinct (map name (servers s))
      \<and> distinct (map ip (servers s)) \<and> list_all (\<lambda>r. sid r \<le> servers_seq s) (servers s))"

section \<open>Facts about the examples\<close>

lemma store_one_eq:
  "store_one = \<lparr>servers = [\<lparr>sid = 1, name = ''a'', ip = ''h''\<rparr>], stats = [],
                servers_seq = 1, stats_seq = 0, foreign_keys = False\<rparr>"
  by (simp add: store_one_def add_server_def world_up_def startup_def connect_def init_db_def
      insert_server_def)

lemma store_polled_eq:
  "store_polled = \<lparr>servers = [\<lparr>sid = 1, name = ''a'', ip = ''h''\<rparr>],
                   stats = [\<lparr>stat_id = 1, server_id = Some 1, online = 0, timestamp = 1000\<rparr>],
                   servers_seq = 1, stats_seq = 1, foreign_keys = False\<rparr>"
  by (simp add: store_polled_def store_one_eq collect_data_def load_servers_def world_up_def
      insert_stat_def get_server_id_def)









section \<open>Results of the store operations\<close>


lemma remove_server_result:
  "remove_server s n =
     (s\<lparr>servers := filter (\<lambda>r. name r \<noteq> n) (servers s),
        stats := (if foreign_keys s
                  then filter (\<lambda>t. \<not> (\<exists>r \<in> set (filter (\<lambda>r. name r = n) (servers s)).
                                         server_id t = Some (sid r))) (stats s)
                  else stats s)\<rparr>,
      [if filter (\<lambda>r. name r = n) (servers s) \<noteq> [] then RemoveOk n else RemoveNotFound])"
  by (simp add: remove_server_def delete_servers_named_def Let_def)

lemma delete_server_data_cases:
  "delete_server_data s n = (s, [DeleteNotExist])
   \<or> (\<exists>r \<in> set (servers s). name r = n \<and>
         delete_server_data s n =
           (s\<lparr>stats := filter (\<lambda>t. server_id t \<noteq> Some (sid r)) (stats s)\<rparr>,
            [DeletedCount (length (filter (\<lambda>t. server_id t = Some (sid r)) (stats s))) n]))"
proof (cases "filter (\<lambda>r. name r = n) (servers s)")
  case Nil
  then show ?thesis by (simp add: delete_server_data_def get_server_id_def)
next
  case (Cons r rs)
  then have "r \<in> set (filter (\<lambda>r. name r = n) (servers s))" by simp
  then have "r \<in> set (servers s)" "name r = n" by auto
  then show ?thesis using Cons
    by (auto simp: delete_server_data_def get_server_id_def delete_stats_of_def)
qed

section \<open>Anomaly detection\<close>

lemma variance_nonneg: "0 \<le> variance xs"
  unfolding variance_def
  by (intro divide_nonneg_nonneg sum_list_nonneg) auto







text \<open>
  The detector without the square root: its answer read off the variance, which is a
  rational number. The examples are those of the specification's test list.
\<close>

lemma above_two_sqrt:
  assumes "0 \<le> v"
  shows "2 * sqrt v < d \<longleftrightarrow> 0 < d \<and> 4 * v < d\<^sup>2"
proof -
  have eq: "2 * sqrt v = sqrt (4 * v)"
    by (simp add: real_sqrt_mult)
  show ?thesis
  proof (cases "0 < d")
    case True
    then have "d = sqrt (d\<^sup>2)" by simp
    then have "sqrt (4 * v) < d \<longleftrightarrow> sqrt (4 * v) < sqrt (d\<^sup>2)" by simp
    also have "\<dots> \<longleftrightarrow> 4 * v < d\<^sup>2" by (rule real_sqrt_less_iff)
    finally show ?thesis using True eq by simp
  next
    case False
    have "0 \<le> sqrt (4 * v)" using assms by simp
    with False have "\<not> sqrt (4 * v) < d" by linarith
    with False show ?thesis using eq by simp
  qed
qed

lemma anomaly_by_squares:
  assumes "3 \<le> length data"
  shows "anomaly data =
     (let current = real_of_int (hd data); avg = mean (tl data); v = variance (tl data)
      in if v = 0
         then (if current > avg * 1.5 then Some Spike
               else if current < avg then Some Drop else None)
         else (if 0 < current - avg \<and> 4 * v < (current - avg)\<^sup>2 then Some Spike
               else if 0 < avg - current \<and> 4 * v < (avg - current)\<^sup>2 then Some Drop
               else None))"
proof -
  define current where "current = real_of_int (hd data)"
  define avg where "avg = mean (tl data)"
  define v where "v = variance (tl data)"
  have v0: "0 \<le> v" by (simp add: v_def variance_nonneg)
  have std: "stdev (tl data) = sqrt v" by (simp add: v_def stdev_def)
  have up: "current > avg + 2 * sqrt v \<longleftrightarrow> 0 < current - avg \<and> 4 * v < (current - avg)\<^sup>2"
    using above_two_sqrt [OF v0, of "current - avg"] by (simp add: algebra_simps)
  have down: "current < avg - 2 * sqrt v \<longleftrightarrow> 0 < avg - current \<and> 4 * v < (avg - current)\<^sup>2"
    using above_two_sqrt [OF v0, of "avg - current"] by (simp add: algebra_simps)
  have "anomaly data =
      (if current > (if sqrt v = 0 then avg * 1.5 else avg + 2 * sqrt v) then Some Spike
       else if current < avg - 2 * sqrt v then Some Drop else None)"
    using assms by (simp add: anomaly_def Let_def current_def avg_def std)
  also have "\<dots> = (if v = 0
         then (if current > avg * 1.5 then Some Spike
               else if current < avg then Some Drop else None)
         else (if 0 < current - avg \<and> 4 * v < (current - avg)\<^sup>2 then Some Spike
               else if 0 < avg - current \<and> 4 * v < (avg - current)\<^sup>2 then Some Drop
               else None))"
  proof (cases "v = 0")
    case True
    then show ?thesis by simp
  next
    case False
    then have "sqrt v \<noteq> 0" by simp
    then show ?thesis using False up down by simp
  qed
  finally show ?thesis
    by (simp add: Let_def current_def avg_def v_def)
qed

lemma spec_example_spike: "anomaly [20, 10, 12, 8, 11, 9] = Some Spike"
  by (simp add: anomaly_by_squares variance_def mean_def power2_eq_square)

lemma spec_example_drop: "anomaly [3, 10, 12, 8, 11, 9] = Some Drop"
  by (simp add: anomaly_by_squares variance_def mean_def power2_eq_square)

lemma spec_example_flat_spike: "anomaly [16, 10, 10, 10, 10, 10] = Some Spike"
  by (simp add: anomaly_by_squares variance_def mean_def)

lemma spec_example_flat_quiet: "anomaly [14, 10, 10, 10, 10, 10] = None"
  by (simp add: anomaly_by_squares variance_def mean_def)

lemma short_history_quiet: "length data < 3 \<Longrightarrow> anomaly data = None"
  by (simp add: anomaly_def)

section \<open>Names the store does not know, and duplicates\<close>

text \<open>
  Claim C5, as the code has it. When no server has the name, \<open>remove_server\<close> reports
  that the server was not found and \<open>delete_server_data\<close> reports that the server does
  not exist (it prints no count); neither raises, and both leave the store unchanged.
\<close>

theorem unknown_name_leaves_store:
  assumes "n \<notin> fst ` set (load_servers s)"
  shows "remove_server s n = (s, [RemoveNotFound]) \<and>
         delete_server_data s n = (s, [DeleteNotExist])"
proof -
  from assms have no: "\<forall>r \<in> set (servers s). name r \<noteq> n"
    by (force simp: load_servers_def)
  then have none: "filter (\<lambda>r. name r = n) (servers s) = []"
    by (simp add: filter_empty_conv)
  from no have all: "filter (\<lambda>r. name r \<noteq> n) (servers s) = servers s"
    by (simp add: filter_id_conv)
  have "remove_server s n = (s, [RemoveNotFound])"
    by (simp add: remove_server_def delete_servers_named_def none all)
  moreover have "delete_server_data s n = (s, [DeleteNotExist])"
    by (simp add: delete_server_data_def get_server_id_def none)
  ultimately show ?thesis by simp
qed

theorem unknown_name_leaves_store_witness:
  "remove_server store_polled ''ghost'' = (store_polled, [RemoveNotFound]) \<and>
   delete_server_data store_polled ''ghost'' = (store_polled, [DeleteNotExist])"
proof -
  have "''ghost'' \<notin> fst ` set (load_servers store_polled)"
    by (simp add: load_servers_def store_polled_eq)
  then show ?thesis by (rule unknown_name_leaves_store)
qed

text \<open>
  Against C5 as stated: deleting the data of a name the store does not know yields the
  not-found message, not a count.
\<close>

theorem delete_unknown_reports_no_count:
  "snd (delete_server_data (db (startup init_db False)) ''ghost'') = [DeleteNotExist]"
  by (simp add: delete_server_data_def get_server_id_def startup_def connect_def init_db_def)

text \<open>
  Claim C6, as the code has it. An \<open>add_server\<close> whose name or address is that of an
  existing server leaves the store unchanged. It is rejected with the duplicate message
  when the status call to the address succeeds, and with the message of the failed
  status call otherwise, since the call comes before the insert.
\<close>

theorem duplicate_add_rejected:
  assumes "\<exists>r \<in> set (servers s). name r = n \<or> ip r = a"
  shows "fst (add_server w s n a) = s \<and>
         snd (add_server w s n a) =
           (case status w a of
              Inr k \<Rightarrow> [AddDuplicate]
            | Inl msg \<Rightarrow> [if sublist ''timed out'' msg then AddTimeout else AddFailed msg])"
  using assms by (simp add: add_server_def insert_server_def split: sum.split)

theorem duplicate_add_rejected_witness:
  "add_server world_up store_one ''a'' ''elsewhere'' = (store_one, [AddDuplicate])"
proof -
  have dup: "\<exists>r \<in> set (servers store_one). name r = ''a'' \<or> ip r = ''elsewhere''"
    by (simp add: store_one_eq)
  have "status world_up ''elsewhere'' = Inr 0"
    by (simp add: world_up_def)
  with duplicate_add_rejected [OF dup, of world_up] show ?thesis
    by (simp add: prod_eq_iff)
qed

text \<open>
  Against C6 as stated: a second \<open>add a h\<close> while the host does not answer is rejected
  with the timeout message, not with the duplicate message.
\<close>

theorem duplicate_add_while_down:
  "add_server world_down store_one ''a'' ''h'' = (store_one, [AddTimeout])"
  by (simp add: add_server_def world_down_def)

section \<open>Removing a server and its samples\<close>

text \<open>
  After \<open>remove_server\<close> the name is no longer listed, and the queries, which join the
  samples with the servers, find nothing under it. The samples themselves are deleted
  when the connection enforces foreign keys, and all kept when it does not.
\<close>

lemma remove_server_unlists: "n \<notin> fst ` set (load_servers (fst (remove_server s n)))"
  by (auto simp: remove_server_result load_servers_def)

lemma joined_after_remove: "joined (fst (remove_server s n)) n = []"
  by (simp add: remove_server_result joined_def)

lemma remove_server_no_samples_visible:
  "query_samples (fst (remove_server s n)) n cutoff = []
   \<and> recent_counts (fst (remove_server s n)) n = []
   \<and> aggregate (fst (remove_server s n)) n cutoff = (None, None, 0)"
  by (simp add: query_samples_def recent_counts_def aggregate_def joined_after_remove)

lemma remove_server_cascades_when_enforced:
  assumes "foreign_keys s" "r \<in> set (servers s)" "name r = n"
  shows "filter (\<lambda>t. server_id t = Some (sid r)) (stats (fst (remove_server s n))) = []"
proof -
  have "\<exists>q \<in> set (filter (\<lambda>q. name q = n) (servers s)). server_id t = Some (sid q)"
    if "server_id t = Some (sid r)" for t
    using assms(2,3) that by auto
  then show ?thesis
    using assms(1) by (auto simp: remove_server_result filter_empty_conv)
qed

lemma remove_server_keeps_when_not_enforced:
  "\<not> foreign_keys s \<Longrightarrow> stats (fst (remove_server s n)) = stats s"
  by (simp add: remove_server_result)

text \<open>
  Claim C2 at a concrete store: after \<open>add a h\<close> and one poll round, removing \<open>a\<close>
  deletes the server row and keeps its sample, which now refers to no server.
\<close>

theorem remove_server_keeps_samples:
  "remove_server store_polled ''a'' = (store_polled\<lparr>servers := []\<rparr>, [RemoveOk ''a''])
   \<and> stats store_polled = [\<lparr>stat_id = 1, server_id = Some 1, online = 0, timestamp = 1000\<rparr>]"
  by (simp add: store_polled_eq remove_server_def delete_servers_named_def)

section \<open>The report\<close>

text \<open>
  A cell of the report shows \<open>NA\<close> when there is no sample in the window, and also when
  the peak, or the sum of the counts, is 0.
\<close>

lemma peak_cell_absent:
  "peak_cell (fst (aggregate s n cutoff)) = NA \<longleftrightarrow>
     (let xs = map online (filter (\<lambda>t. after cutoff (timestamp t)) (joined s n))
      in xs = [] \<or> Max (set xs) = 0)"
  by (simp add: aggregate_def peak_cell_def Let_def)

lemma avg_cell_absent:
  "avg_cell (fst (snd (aggregate s n cutoff))) = NA \<longleftrightarrow>
     (let xs = map online (filter (\<lambda>t. after cutoff (timestamp t)) (joined s n))
      in xs = [] \<or> sum_list xs = 0)"
  by (simp add: aggregate_def avg_cell_def Let_def)

text \<open>
  Claim C4 at a concrete store: server \<open>a\<close> has one sample in the window, with count 0.
  The report shows peak and average as absent and one day with data.
\<close>

theorem report_shows_zero_as_absent:
  "generate_report world_up store_polled 1 = [ReportStart, ReportRow ''a'' ''h'' NA NA 1]"
  by (simp add: store_polled_eq generate_report_def load_servers_def report_row_def
      aggregate_def joined_def window_start_def after_def world_up_def peak_cell_def
      avg_cell_def)

section \<open>Polling\<close>

lemma poll_servers_servers: "servers (fst (poll_servers w xs s)) = servers s"
  by (induction xs arbitrary: s)
     (auto simp: insert_stat_def case_prod_beta Let_def split: sum.splits)










section \<open>The trend command\<close>





section \<open>Lower case at the console\<close>












lemma strip_subset: "set (strip s) \<subseteq> set s"
proof
  fix c assume "c \<in> set (strip s)"
  then have "c \<in> set (dropWhile isspace (rev (dropWhile isspace s)))"
    by (simp add: strip_def)
  then have "c \<in> set (rev (dropWhile isspace s))"
    by (rule set_dropWhileD)
  then show "c \<in> set s" by (auto dest: set_dropWhileD)
qed

lemma strip_no_upper: "\<not> has_upper s \<Longrightarrow> \<not> has_upper (strip s)"
  using strip_subset [of s] by (auto simp: has_upper_def list_ex_iff)





lemma nth_1_mem: "2 \<le> length xs \<Longrightarrow> xs ! 1 \<in> set xs"
  by simp

lemma nth_2_mem: "3 \<le> length xs \<Longrightarrow> xs ! 2 \<in> set xs"
  by simp



















section \<open>The scheduler loop and the exit command\<close>

lemma execute_exit: "execute_command w ''exit'' m = (m\<lparr>running := False\<rparr>, [])"
  by (simp add: execute_command_def)





lemma execute_exit_db:
  "db (fst (execute_command w ''exit'' m)) = db m
   \<and> never_delete_data (fst (execute_command w ''exit'' m)) = never_delete_data m"
  by (simp add: execute_exit)


lemma tick_fired:
  "fired (tick i st) = fired st @
     [(now i,
       (if t_check i - last_collect (sched st) \<ge> of_nat interval then [Collect] else [])
       @ (if hour (now i) = 8 \<and> minute (now i) < 5 then [Report] else [])
       @ (if delta_days (now i) (last_clean (sched st)) \<ge> 7 then [Clean] else [])
       @ (if minute (now i) = 0 then [Detect] else []))]"
  by (simp add: tick_def Let_def case_prod_beta)



lemma tick_report_due:
  "Report \<in> set (snd (last (fired (tick i st)))) \<longleftrightarrow> hour (now i) = 8 \<and> minute (now i) < 5"
  by (simp add: tick_fired)

text \<open>
  Claim C3 at a concrete run: two passes of the loop a tenth of a second apart, both at
  08:01 of the same day, each run the report.
\<close>

theorem report_runs_on_every_pass:
  "fired (run [pass 0, pass 100000] loop0) =
     [(now (pass 0), [Report]), (now (pass 100000), [Report])]
   \<and> ordinal (now (pass 0)) = ordinal (now (pass 100000))"
  by (simp add: loop0_def pass_def tick_def startup_def start_def delta_days_def micros_def
      interval_def)




section \<open>What every reachable store satisfies\<close>

text \<open>
  Foreign keys are never enforced in a running monitor, and the constraints of the
  schema on the server table hold after every command and every pass of the loop.
\<close>

lemma poll_servers_foreign_keys: "foreign_keys (fst (poll_servers w xs s)) = foreign_keys s"
  by (induction w xs s rule: poll_servers.induct)
     (simp_all add: insert_stat_def case_prod_beta Let_def split: sum.splits)

lemma poll_servers_seq: "servers_seq (fst (poll_servers w xs s)) = servers_seq s"
  by (induction w xs s rule: poll_servers.induct)
     (simp_all add: insert_stat_def case_prod_beta Let_def split: sum.splits)

lemma add_server_foreign_keys: "foreign_keys (fst (add_server w s n a)) = foreign_keys s"
  by (simp add: add_server_def insert_server_def split: sum.splits)

lemma remove_server_foreign_keys: "foreign_keys (fst (remove_server s n)) = foreign_keys s"
  by (simp add: remove_server_result)

lemma delete_server_data_foreign_keys:
  "foreign_keys (fst (delete_server_data s n)) = foreign_keys s"
  using delete_server_data_cases [of s n] by auto

lemma execute_foreign_keys:
  "foreign_keys (db (fst (execute_command w c m))) = foreign_keys (db m)"
  by (simp add: execute_command_def with_db_def handle_add_def handle_remove_def
      handle_delete_def Let_def add_server_foreign_keys remove_server_foreign_keys
      delete_server_data_foreign_keys)

lemma process_input_foreign_keys:
  "foreign_keys (db (fst (process_input w cmds m))) = foreign_keys (db m)"
  by (induction cmds arbitrary: m) (simp_all add: case_prod_beta Let_def execute_foreign_keys)

lemma tick_foreign_keys:
  "foreign_keys (db (mon (tick i st))) = foreign_keys (db (mon st))"
  by (simp add: tick_def Let_def case_prod_beta collect_data_def clean_old_data_def
      poll_servers_foreign_keys process_input_foreign_keys)

lemma run_foreign_keys:
  "foreign_keys (db (mon (run is st))) = foreign_keys (db (mon st))"
  by (induction "is" arbitrary: st) (simp_all add: tick_foreign_keys)

lemma startup_not_enforced: "\<not> foreign_keys (db (startup f nd))"
  by (simp add: startup_def connect_def)

lemma schema_ok_init: "schema_ok init_db"
  by (simp add: schema_ok_def init_db_def)

lemma schema_ok_add: "schema_ok s \<Longrightarrow> schema_ok (fst (add_server w s n a))"
  by (auto simp: schema_ok_def add_server_def insert_server_def list_all_iff
      split: sum.splits)

lemma schema_ok_remove: "schema_ok s \<Longrightarrow> schema_ok (fst (remove_server s n))"
  by (auto simp: schema_ok_def remove_server_result list_all_iff distinct_map_filter)

lemma schema_ok_delete: "schema_ok s \<Longrightarrow> schema_ok (fst (delete_server_data s n))"
  using delete_server_data_cases [of s n] by (auto simp: schema_ok_def)

lemma schema_ok_poll: "schema_ok (fst (poll_servers w xs s)) = schema_ok s"
  by (simp add: schema_ok_def poll_servers_servers poll_servers_seq)

lemma schema_ok_collect: "schema_ok s \<Longrightarrow> schema_ok (fst (collect_data w s))"
  by (simp add: collect_data_def Let_def case_prod_beta schema_ok_poll)

lemma schema_ok_clean: "schema_ok s \<Longrightarrow> schema_ok (fst (clean_old_data nd w s))"
  by (simp add: clean_old_data_def schema_ok_def Let_def)

lemma schema_ok_execute:
  "schema_ok (db m) \<Longrightarrow> schema_ok (db (fst (execute_command w c m)))"
  by (simp add: execute_command_def with_db_def handle_add_def handle_remove_def
      handle_delete_def Let_def schema_ok_add schema_ok_remove schema_ok_delete)

lemma schema_ok_process:
  "schema_ok (db m) \<Longrightarrow> schema_ok (db (fst (process_input w cmds m)))"
  by (induction cmds arbitrary: m) (simp_all add: case_prod_beta Let_def schema_ok_execute)

lemma schema_ok_tick: "schema_ok (db (mon st)) \<Longrightarrow> schema_ok (db (mon (tick i st)))"
  by (simp add: tick_def Let_def case_prod_beta schema_ok_collect schema_ok_clean
      schema_ok_process)

lemma schema_ok_run: "schema_ok (db (mon st)) \<Longrightarrow> schema_ok (db (mon (run is st)))"
  by (induction "is" arbitrary: st) (simp_all add: schema_ok_tick)

end
